theory Spec2Isabelle
  imports Main "HOL-Library.Word"
begin

section \<open>Data model of \<^verbatim>\<open>lib/mayaUsd/ufe/UsdTransform3d.cpp\<close>\<close>

text \<open>
  The file is glue code: most members of \<^verbatim>\<open>UsdTransform3d\<close> dereference the held scene
  item and forward to the scene description library (attribute queries, the transform
  cache), to helpers of \<^verbatim>\<open>private/Utils.h\<close> or to the \<^verbatim>\<open>create\<close> function of a command
  class. The embedding keeps that shape: the members are translated line by line, the
  things they call into are either small models of the library call (attribute lookup) or
  fields of an environment record.

  A \<^verbatim>\<open>double\<close> is its 64-bit pattern and a \<^verbatim>\<open>float\<close> its 32-bit pattern: the code copies
  these values and never computes with them; the one conversion it makes, from \<^verbatim>\<open>float\<close> to
  \<^verbatim>\<open>double\<close>, is a field of the environment. The literal \<^verbatim>\<open>0\<close> converted to \<^verbatim>\<open>double\<close> is the
  all-zero pattern, the literal \<^verbatim>\<open>1\<close> is \<^verbatim>\<open>0x3FF0000000000000\<close>.
\<close>

type_synonym double = "64 word"
type_synonym float = "32 word"

definition double_0 :: double where
  "double_0 = 0"

definition double_1 :: double where
  "double_1 = 0x3FF0000000000000"

type_synonym TfToken = string
type_synonym Ufe_Path = string
type_synonym UsdTimeCode = double

datatype Vector3d = Vector3d double double double

type_synonym row4 = "double \<times> double \<times> double \<times> double"

text \<open>\<^verbatim>\<open>GfMatrix4d\<close> and \<^verbatim>\<open>Ufe::Matrix4d\<close>: four rows of four doubles.\<close>

datatype GfMatrix4d = GfMatrix4d row4 row4 row4 row4
datatype Matrix4d = Matrix4d row4 row4 row4 row4

text \<open>
  The value an attribute holds at a time code. \<^verbatim>\<open>Get<T>\<close> succeeds only when the held
  value has type \<^verbatim>\<open>T\<close>.
\<close>

datatype VtValue =
    GfVec3d double double double
  | GfVec3f float float float
  | OtherValue

text \<open>
  A \<^verbatim>\<open>UsdAttribute\<close> gives for each time code the value it resolves to there, if any; an
  attribute that was created and never given a value resolves to nothing. A \<^verbatim>\<open>UsdPrim\<close> is
  a handle into the stage, and the stage holds the attributes of every prim: the mutators
  of \<^verbatim>\<open>UsdTransform3d\<close> write to the stage through the handle, the observers read it.
\<close>

type_synonym UsdAttribute = "UsdTimeCode \<Rightarrow> VtValue option"
type_synonym UsdPrim = string
type_synonym UsdStage = "UsdPrim \<Rightarrow> TfToken \<Rightarrow> UsdAttribute option"

definition HasAttribute :: "UsdStage \<Rightarrow> UsdPrim \<Rightarrow> TfToken \<Rightarrow> bool" where
  "HasAttribute s prim tok = (case s prim tok of None \<Rightarrow> False | Some a \<Rightarrow> True)"

text \<open>\<^verbatim>\<open>GetAttribute\<close> of a name the prim does not have is an invalid attribute: no value.\<close>

definition GetAttribute :: "UsdStage \<Rightarrow> UsdPrim \<Rightarrow> TfToken \<Rightarrow> UsdAttribute" where
  "GetAttribute s prim tok = (case s prim tok of None \<Rightarrow> (\<lambda>time. None) | Some a \<Rightarrow> a)"

text \<open>
  \<^verbatim>\<open>attr.Get<GfVec3d>(&v, time)\<close> and \<^verbatim>\<open>attr.Get<GfVec3f>(&v, time)\<close>: \<open>Some\<close> of the three
  components written to \<^verbatim>\<open>v\<close> when the call returns true, \<open>None\<close> when it returns false.
\<close>

definition Get_GfVec3d :: "UsdAttribute \<Rightarrow> UsdTimeCode \<Rightarrow> (double \<times> double \<times> double) option" where
  "Get_GfVec3d attr time =
     (case attr time of
        Some (GfVec3d a b c) \<Rightarrow> Some (a, b, c)
      | Some (GfVec3f a b c) \<Rightarrow> None
      | Some OtherValue \<Rightarrow> None
      | None \<Rightarrow> None)"

definition Get_GfVec3f :: "UsdAttribute \<Rightarrow> UsdTimeCode \<Rightarrow> (float \<times> float \<times> float) option" where
  "Get_GfVec3f attr time =
     (case attr time of
        Some (GfVec3f a b c) \<Rightarrow> Some (a, b, c)
      | Some (GfVec3d a b c) \<Rightarrow> None
      | Some OtherValue \<Rightarrow> None
      | None \<Rightarrow> None)"

text \<open>\<^verbatim>\<open>UsdSceneItem\<close>: the path of the item and the prim it stands for.\<close>

record UsdSceneItem =
  UsdSceneItem_path :: Ufe_Path
  UsdSceneItem_prim :: UsdPrim

text \<open>
  \<^verbatim>\<open>UsdTransform3d\<close> has one data member, the shared pointer \<^verbatim>\<open>fItem\<close>; \<open>None\<close> is the null
  pointer.
\<close>

record UsdTransform3d =
  fItem :: "UsdSceneItem option"

text \<open>
  Modelled from the spec: the classes \<^verbatim>\<open>UsdTranslateUndoableCommand\<close>,
  \<^verbatim>\<open>UsdRotateUndoableCommand\<close>, \<^verbatim>\<open>UsdScaleUndoableCommand\<close> and
  \<^verbatim>\<open>UsdRotatePivotTranslateUndoableCommand\<close>, whose \<^verbatim>\<open>create\<close> functions the factories call,
  are not among the sources. A command of the host's undo/redo model is represented by the
  arguments its \<^verbatim>\<open>create\<close> function was called with, and \<^verbatim>\<open>create\<close> by the constructor of
  this datatype.
\<close>

datatype UndoableCommand =
    UsdTranslateUndoableCommand_create Ufe_Path double double double
  | UsdRotateUndoableCommand_create Ufe_Path double double double
  | UsdScaleUndoableCommand_create Ufe_Path double double double
  | UsdRotatePivotTranslateUndoableCommand_create Ufe_Path

text \<open>A command pointer (\<^verbatim>\<open>...UndoableCommand::Ptr\<close>); \<open>None\<close> is \<^verbatim>\<open>nullptr\<close>.\<close>

type_synonym UndoableCommand_Ptr = "UndoableCommand option"

text \<open>
  What can go wrong: dereferencing a null \<^verbatim>\<open>fItem\<close> (undefined behaviour in the source, a
  failure here), the \<^verbatim>\<open>std::runtime_error\<close> that \<^verbatim>\<open>scalePivotTranslateCmd\<close> throws, and a
  call to an overload that the preprocessor left out for the given
  \<^verbatim>\<open>UFE_PREVIEW_VERSION_NUM\<close>.
\<close>

datatype error =
    NullPointerDereference
  | runtime_error string
  | NotDeclared

text \<open>
  What the file takes from outside:
  \<^item> the macro \<^verbatim>\<open>UFE_PREVIEW_VERSION_NUM\<close>;
  \<^item> \<^verbatim>\<open>getTime\<close> of \<^verbatim>\<open>mayaUsd/ufe/Utils.h\<close>;
  \<^item> the conversion of a \<^verbatim>\<open>float\<close> to \<^verbatim>\<open>double\<close> in \<^verbatim>\<open>x = v[0]\<close> for a \<^verbatim>\<open>GfVec3f v\<close>;
  \<^item> \<^verbatim>\<open>rotateOp\<close>, \<^verbatim>\<open>scaleOp\<close> and \<^verbatim>\<open>rotatePivotTranslateOp\<close> of \<^verbatim>\<open>private/Utils.h\<close>, which
    write to the stage;
  \<^item> the two queries of \<^verbatim>\<open>UsdGeomXformCache\<close>, built for a time code;
  \<^item> the content of a \<^verbatim>\<open>Ufe::Matrix4d\<close> that was declared and never assigned.
\<close>

record env =
  UFE_PREVIEW_VERSION_NUM :: nat
  getTime :: "Ufe_Path \<Rightarrow> UsdTimeCode"
  float_to_double :: "float \<Rightarrow> double"
  rotateOp :: "UsdPrim \<Rightarrow> Ufe_Path \<Rightarrow> double \<Rightarrow> double \<Rightarrow> double \<Rightarrow> UsdStage \<Rightarrow> UsdStage"
  scaleOp :: "UsdPrim \<Rightarrow> Ufe_Path \<Rightarrow> double \<Rightarrow> double \<Rightarrow> double \<Rightarrow> UsdStage \<Rightarrow> UsdStage"
  rotatePivotTranslateOp ::
    "UsdPrim \<Rightarrow> Ufe_Path \<Rightarrow> double \<Rightarrow> double \<Rightarrow> double \<Rightarrow> UsdStage \<Rightarrow> UsdStage"
  GetLocalToWorldTransform :: "UsdTimeCode \<Rightarrow> UsdStage \<Rightarrow> UsdPrim \<Rightarrow> GfMatrix4d"
  GetParentToWorldTransform :: "UsdTimeCode \<Rightarrow> UsdStage \<Rightarrow> UsdPrim \<Rightarrow> GfMatrix4d"
  unassigned_Matrix4d :: Matrix4d

section \<open>The anonymous namespace\<close>

definition convertFromUsd :: "GfMatrix4d \<Rightarrow> Matrix4d" where
  "convertFromUsd matrix =
     (case matrix of
        GfMatrix4d (m00, m01, m02, m03) (m10, m11, m12, m13)
                   (m20, m21, m22, m23) (m30, m31, m32, m33) \<Rightarrow>
          Matrix4d (m00, m01, m02, m03) (m10, m11, m12, m13)
                   (m20, m21, m22, m23) (m30, m31, m32, m33))"

definition primToUfeXform :: "env \<Rightarrow> UsdStage \<Rightarrow> UsdPrim \<Rightarrow> UsdTimeCode \<Rightarrow> Matrix4d" where
  "primToUfeXform e s prim time =
     (let usdMatrix = GetLocalToWorldTransform e time s prim;
          xform = convertFromUsd usdMatrix
      in xform)"

definition primToUfeExclusiveXform :: "env \<Rightarrow> UsdStage \<Rightarrow> UsdPrim \<Rightarrow> UsdTimeCode \<Rightarrow> Matrix4d" where
  "primToUfeExclusiveXform e s prim time =
     (let usdMatrix = GetParentToWorldTransform e time s prim;
          xform = convertFromUsd usdMatrix
      in xform)"

section \<open>Construction\<close>

text \<open>
  The default constructor leaves \<^verbatim>\<open>fItem\<close> a null shared pointer; the other one copies its
  argument, which is a shared pointer too and may be null.
\<close>

definition create :: UsdTransform3d where
  "create = \<lparr>fItem = None\<rparr>"

definition create_item :: "UsdSceneItem option \<Rightarrow> UsdTransform3d" where
  "create_item item = \<lparr>fItem = item\<rparr>"

definition setItem :: "UsdTransform3d \<Rightarrow> UsdSceneItem option \<Rightarrow> UsdTransform3d" where
  "setItem t item = t\<lparr>fItem := item\<rparr>"

section \<open>The overrides of \<^verbatim>\<open>Ufe::Transform3d\<close>\<close>

definition path :: "UsdTransform3d \<Rightarrow> error + Ufe_Path" where
  "path t =
     (case fItem t of
        None \<Rightarrow> Inl NullPointerDereference
      | Some item \<Rightarrow> Inr (UsdSceneItem_path item))"

text \<open>\<^verbatim>\<open>sceneItem\<close> copies the pointer and does not look at what it points to.\<close>

definition sceneItem :: "UsdTransform3d \<Rightarrow> error + UsdSceneItem option" where
  "sceneItem t = Inr (fItem t)"

text \<open>
  Modelled from the spec: \<^verbatim>\<open>translateOp\<close> of \<^verbatim>\<open>private/Utils.h\<close> is not among the sources.
  It is the writer of the translate operation: it authors the attribute
  \<^verbatim>\<open>xformOp:translate\<close> of the prim with the vector \<^verbatim>\<open>GfVec3d(x, y, z)\<close> at the time of the
  item's path, and leaves every other attribute and every other prim of the stage alone.
\<close>

definition translateOp ::
  "env \<Rightarrow> UsdPrim \<Rightarrow> Ufe_Path \<Rightarrow> double \<Rightarrow> double \<Rightarrow> double \<Rightarrow> UsdStage \<Rightarrow> UsdStage" where
  "translateOp e prim p x y z s =
     (let xlate = ''xformOp:translate'';
          attr = (GetAttribute s prim xlate)(getTime e p := Some (GfVec3d x y z))
      in s(prim := (s prim)(xlate := Some attr)))"

text \<open>
  The command factories for translate, rotate and scale come in two shapes, and the
  preprocessor keeps one of them: with \<^verbatim>\<open>UFE_PREVIEW_VERSION_NUM >= 2013\<close> the one that
  takes \<^verbatim>\<open>(x, y, z)\<close>, otherwise the one without parameters. Each shape is translated on
  its own; the factory proper takes the list of arguments of the call and answers
  \<open>NotDeclared\<close> when the shape called for was not compiled.
\<close>

definition translateCmd_xyz ::
  "UsdTransform3d \<Rightarrow> double \<Rightarrow> double \<Rightarrow> double \<Rightarrow> error + UndoableCommand_Ptr" where
  "translateCmd_xyz t x y z =
     (case path t of
        Inl err \<Rightarrow> Inl err
      | Inr p \<Rightarrow> Inr (Some (UsdTranslateUndoableCommand_create p x y z)))"

definition translateCmd_void :: "UsdTransform3d \<Rightarrow> error + UndoableCommand_Ptr" where
  "translateCmd_void t =
     (case path t of
        Inl err \<Rightarrow> Inl err
      | Inr p \<Rightarrow> Inr (Some (UsdTranslateUndoableCommand_create p double_0 double_0 double_0)))"

definition translateCmd :: "env \<Rightarrow> UsdTransform3d \<Rightarrow> double list \<Rightarrow> error + UndoableCommand_Ptr" where
  "translateCmd e t args =
     (if 2013 \<le> UFE_PREVIEW_VERSION_NUM e then
        (case args of [x, y, z] \<Rightarrow> translateCmd_xyz t x y z | _ \<Rightarrow> Inl NotDeclared)
      else
        (case args of [] \<Rightarrow> translateCmd_void t | _ \<Rightarrow> Inl NotDeclared))"

definition translate ::
  "env \<Rightarrow> UsdStage \<Rightarrow> UsdTransform3d \<Rightarrow> double \<Rightarrow> double \<Rightarrow> double \<Rightarrow> error + UsdStage" where
  "translate e s t x y z =
     (case fItem t of
        None \<Rightarrow> Inl NullPointerDereference
      | Some item \<Rightarrow>
          Inr (translateOp e (UsdSceneItem_prim item) (UsdSceneItem_path item) x y z s))"

definition translation :: "env \<Rightarrow> UsdStage \<Rightarrow> UsdTransform3d \<Rightarrow> error + Vector3d" where
  "translation e s t =
     (let xlate = ''xformOp:translate'' in
      case fItem t of
        None \<Rightarrow> Inl NullPointerDereference
      | Some item \<Rightarrow>
          if HasAttribute s (UsdSceneItem_prim item) xlate then
            (case path t of
               Inl err \<Rightarrow> Inl err
             | Inr p \<Rightarrow>
                 (case Get_GfVec3d (GetAttribute s (UsdSceneItem_prim item) xlate) (getTime e p) of
                    Some (v0, v1, v2) \<Rightarrow> Inr (Vector3d v0 v1 v2)
                  | None \<Rightarrow> Inr (Vector3d double_0 double_0 double_0)))
          else Inr (Vector3d double_0 double_0 double_0))"

text \<open>\<^verbatim>\<open>rotation()\<close> and \<^verbatim>\<open>scale()\<close> are compiled with \<^verbatim>\<open>UFE_PREVIEW_VERSION_NUM >= 2013\<close> only.\<close>

definition rotation :: "env \<Rightarrow> UsdStage \<Rightarrow> UsdTransform3d \<Rightarrow> error + Vector3d" where
  "rotation e s t =
     (let rotXYZ = ''xformOp:rotateXYZ'' in
      if 2013 \<le> UFE_PREVIEW_VERSION_NUM e then
        (case fItem t of
           None \<Rightarrow> Inl NullPointerDereference
         | Some item \<Rightarrow>
             if HasAttribute s (UsdSceneItem_prim item) rotXYZ then
               (case path t of
                  Inl err \<Rightarrow> Inl err
                | Inr p \<Rightarrow>
                    (case Get_GfVec3f (GetAttribute s (UsdSceneItem_prim item) rotXYZ) (getTime e p) of
                       Some (v0, v1, v2) \<Rightarrow>
                         Inr (Vector3d (float_to_double e v0) (float_to_double e v1)
                                (float_to_double e v2))
                     | None \<Rightarrow> Inr (Vector3d double_0 double_0 double_0)))
             else Inr (Vector3d double_0 double_0 double_0))
      else Inl NotDeclared)"

definition scale :: "env \<Rightarrow> UsdStage \<Rightarrow> UsdTransform3d \<Rightarrow> error + Vector3d" where
  "scale e s t =
     (let scaleTok = ''xformOp:scale'' in
      if 2013 \<le> UFE_PREVIEW_VERSION_NUM e then
        (case fItem t of
           None \<Rightarrow> Inl NullPointerDereference
         | Some item \<Rightarrow>
             if HasAttribute s (UsdSceneItem_prim item) scaleTok then
               (case path t of
                  Inl err \<Rightarrow> Inl err
                | Inr p \<Rightarrow>
                    (case Get_GfVec3f (GetAttribute s (UsdSceneItem_prim item) scaleTok) (getTime e p) of
                       Some (v0, v1, v2) \<Rightarrow>
                         Inr (Vector3d (float_to_double e v0) (float_to_double e v1)
                                (float_to_double e v2))
                     | None \<Rightarrow> Inr (Vector3d double_0 double_0 double_0)))
             else Inr (Vector3d double_0 double_0 double_0))
      else Inl NotDeclared)"

definition rotateCmd_xyz ::
  "UsdTransform3d \<Rightarrow> double \<Rightarrow> double \<Rightarrow> double \<Rightarrow> error + UndoableCommand_Ptr" where
  "rotateCmd_xyz t x y z =
     (case path t of
        Inl err \<Rightarrow> Inl err
      | Inr p \<Rightarrow> Inr (Some (UsdRotateUndoableCommand_create p x y z)))"

definition rotateCmd_void :: "UsdTransform3d \<Rightarrow> error + UndoableCommand_Ptr" where
  "rotateCmd_void t =
     (case path t of
        Inl err \<Rightarrow> Inl err
      | Inr p \<Rightarrow> Inr (Some (UsdRotateUndoableCommand_create p double_0 double_0 double_0)))"

definition rotateCmd :: "env \<Rightarrow> UsdTransform3d \<Rightarrow> double list \<Rightarrow> error + UndoableCommand_Ptr" where
  "rotateCmd e t args =
     (if 2013 \<le> UFE_PREVIEW_VERSION_NUM e then
        (case args of [x, y, z] \<Rightarrow> rotateCmd_xyz t x y z | _ \<Rightarrow> Inl NotDeclared)
      else
        (case args of [] \<Rightarrow> rotateCmd_void t | _ \<Rightarrow> Inl NotDeclared))"

text \<open>
  The mutator \<^verbatim>\<open>rotate(x, y, z)\<close>, named apart from the list function \<open>rotate\<close> of the
  library.
\<close>

definition rotate_xyz ::
  "env \<Rightarrow> UsdStage \<Rightarrow> UsdTransform3d \<Rightarrow> double \<Rightarrow> double \<Rightarrow> double \<Rightarrow> error + UsdStage" where
  "rotate_xyz e s t x y z =
     (case fItem t of
        None \<Rightarrow> Inl NullPointerDereference
      | Some item \<Rightarrow>
          Inr (rotateOp e (UsdSceneItem_prim item) (UsdSceneItem_path item) x y z s))"

definition scaleCmd_xyz ::
  "UsdTransform3d \<Rightarrow> double \<Rightarrow> double \<Rightarrow> double \<Rightarrow> error + UndoableCommand_Ptr" where
  "scaleCmd_xyz t x y z =
     (case path t of
        Inl err \<Rightarrow> Inl err
      | Inr p \<Rightarrow> Inr (Some (UsdScaleUndoableCommand_create p x y z)))"

definition scaleCmd_void :: "UsdTransform3d \<Rightarrow> error + UndoableCommand_Ptr" where
  "scaleCmd_void t =
     (case path t of
        Inl err \<Rightarrow> Inl err
      | Inr p \<Rightarrow> Inr (Some (UsdScaleUndoableCommand_create p double_1 double_1 double_1)))"

definition scaleCmd :: "env \<Rightarrow> UsdTransform3d \<Rightarrow> double list \<Rightarrow> error + UndoableCommand_Ptr" where
  "scaleCmd e t args =
     (if 2013 \<le> UFE_PREVIEW_VERSION_NUM e then
        (case args of [x, y, z] \<Rightarrow> scaleCmd_xyz t x y z | _ \<Rightarrow> Inl NotDeclared)
      else
        (case args of [] \<Rightarrow> scaleCmd_void t | _ \<Rightarrow> Inl NotDeclared))"

text \<open>
  \<^verbatim>\<open>setMatrixCmd\<close> and \<^verbatim>\<open>getMatrix\<close> are compiled with \<^verbatim>\<open>UFE_PREVIEW_VERSION_NUM >= 2021\<close>
  only. Both bodies are the placeholders of the source: the first returns \<^verbatim>\<open>nullptr\<close>, the
  second a matrix that was never assigned. Neither looks at \<^verbatim>\<open>fItem\<close>.
\<close>

definition setMatrixCmd :: "env \<Rightarrow> UsdTransform3d \<Rightarrow> Matrix4d \<Rightarrow> error + UndoableCommand_Ptr" where
  "setMatrixCmd e t m =
     (if 2021 \<le> UFE_PREVIEW_VERSION_NUM e then Inr None else Inl NotDeclared)"

definition getMatrix :: "env \<Rightarrow> UsdStage \<Rightarrow> UsdTransform3d \<Rightarrow> error + Matrix4d" where
  "getMatrix e s t =
     (if 2021 \<le> UFE_PREVIEW_VERSION_NUM e then
        (let m = unassigned_Matrix4d e in Inr m)
      else Inl NotDeclared)"

text \<open>The mutator \<^verbatim>\<open>scale(x, y, z)\<close>; the observer \<^verbatim>\<open>scale()\<close> has the plain name.\<close>

definition scale_xyz ::
  "env \<Rightarrow> UsdStage \<Rightarrow> UsdTransform3d \<Rightarrow> double \<Rightarrow> double \<Rightarrow> double \<Rightarrow> error + UsdStage" where
  "scale_xyz e s t x y z =
     (case fItem t of
        None \<Rightarrow> Inl NullPointerDereference
      | Some item \<Rightarrow>
          Inr (scaleOp e (UsdSceneItem_prim item) (UsdSceneItem_path item) x y z s))"

definition rotatePivotTranslateCmd :: "UsdTransform3d \<Rightarrow> error + UndoableCommand_Ptr" where
  "rotatePivotTranslateCmd t =
     (case fItem t of
        None \<Rightarrow> Inl NullPointerDereference
      | Some item \<Rightarrow>
          Inr (Some (UsdRotatePivotTranslateUndoableCommand_create (UsdSceneItem_path item))))"

definition rotatePivotTranslate ::
  "env \<Rightarrow> UsdStage \<Rightarrow> UsdTransform3d \<Rightarrow> double \<Rightarrow> double \<Rightarrow> double \<Rightarrow> error + UsdStage" where
  "rotatePivotTranslate e s t x y z =
     (case fItem t of
        None \<Rightarrow> Inl NullPointerDereference
      | Some item \<Rightarrow>
          (case path t of
             Inl err \<Rightarrow> Inl err
           | Inr p \<Rightarrow> Inr (rotatePivotTranslateOp e (UsdSceneItem_prim item) p x y z s)))"

definition rotatePivot :: "env \<Rightarrow> UsdStage \<Rightarrow> UsdTransform3d \<Rightarrow> error + Vector3d" where
  "rotatePivot e s t =
     (let xpivot = ''xformOp:translate:pivot'' in
      case fItem t of
        None \<Rightarrow> Inl NullPointerDereference
      | Some item \<Rightarrow>
          if HasAttribute s (UsdSceneItem_prim item) xpivot then
            (case path t of
               Inl err \<Rightarrow> Inl err
             | Inr p \<Rightarrow>
                 (case Get_GfVec3f (GetAttribute s (UsdSceneItem_prim item) xpivot) (getTime e p) of
                    Some (v0, v1, v2) \<Rightarrow>
                      Inr (Vector3d (float_to_double e v0) (float_to_double e v1)
                             (float_to_double e v2))
                  | None \<Rightarrow> Inr (Vector3d double_0 double_0 double_0)))
          else Inr (Vector3d double_0 double_0 double_0))"

definition scalePivotTranslateCmd :: "UsdTransform3d \<Rightarrow> error + UndoableCommand_Ptr" where
  "scalePivotTranslateCmd t =
     Inl (runtime_error ''UsdTransform3d::scalePivotTranslateCmd() not implemented'')"

definition scalePivotTranslate ::
  "env \<Rightarrow> UsdStage \<Rightarrow> UsdTransform3d \<Rightarrow> double \<Rightarrow> double \<Rightarrow> double \<Rightarrow> error + UsdStage" where
  "scalePivotTranslate e s t x y z = rotatePivotTranslate e s t x y z"

definition scalePivot :: "env \<Rightarrow> UsdStage \<Rightarrow> UsdTransform3d \<Rightarrow> error + Vector3d" where
  "scalePivot e s t = rotatePivot e s t"

definition segmentInclusiveMatrix :: "env \<Rightarrow> UsdStage \<Rightarrow> UsdTransform3d \<Rightarrow> error + Matrix4d" where
  "segmentInclusiveMatrix e s t =
     (case fItem t of
        None \<Rightarrow> Inl NullPointerDereference
      | Some item \<Rightarrow>
          (case path t of
             Inl err \<Rightarrow> Inl err
           | Inr p \<Rightarrow> Inr (primToUfeXform e s (UsdSceneItem_prim item) (getTime e p))))"

definition segmentExclusiveMatrix :: "env \<Rightarrow> UsdStage \<Rightarrow> UsdTransform3d \<Rightarrow> error + Matrix4d" where
  "segmentExclusiveMatrix e s t =
     (case fItem t of
        None \<Rightarrow> Inl NullPointerDereference
      | Some item \<Rightarrow>
          (case path t of
             Inl err \<Rightarrow> Inl err
           | Inr p \<Rightarrow> Inr (primToUfeExclusiveXform e s (UsdSceneItem_prim item) (getTime e p))))"

section \<open>Concrete inputs\<close>

text \<open>
  An environment for a given \<^verbatim>\<open>UFE_PREVIEW_VERSION_NUM\<close>: every path is at time 1.0, the
  float conversion is given on the two floats used below (1.0f and 2.0f), the helpers leave
  the stage as it is and the transform cache answers with the identity matrix.
\<close>

definition example_env :: "nat \<Rightarrow> env" where
  "example_env version =
     \<lparr>UFE_PREVIEW_VERSION_NUM = version,
      getTime = (\<lambda>p. double_1),
      float_to_double =
        (\<lambda>f. if f = 0x3F800000 then double_1
             else if f = 0x40000000 then 0x4000000000000000 else double_0),
      rotateOp = (\<lambda>prim p x y z s. s),
      scaleOp = (\<lambda>prim p x y z s. s),
      rotatePivotTranslateOp = (\<lambda>prim p x y z s. s),
      GetLocalToWorldTransform =
        (\<lambda>time s prim. GfMatrix4d (double_1, 0, 0, 0) (0, double_1, 0, 0)
                                   (0, 0, double_1, 0) (0, 0, 0, double_1)),
      GetParentToWorldTransform =
        (\<lambda>time s prim. GfMatrix4d (double_1, 0, 0, 0) (0, double_1, 0, 0)
                                   (0, 0, double_1, 0) (0, 0, 0, double_1)),
      unassigned_Matrix4d = Matrix4d (0, 0, 0, 0) (0, 0, 0, 0) (0, 0, 0, 0) (0, 0, 0, 0)\<rparr>"

definition example_item :: UsdSceneItem where
  "example_item =
     \<lparr>UsdSceneItem_path = ''|world|stage|stageShape,/ball'', UsdSceneItem_prim = ''/ball''\<rparr>"

definition example_identity :: Matrix4d where
  "example_identity =
     Matrix4d (double_1, 0, 0, 0) (0, double_1, 0, 0) (0, 0, double_1, 0) (0, 0, 0, double_1)"

text \<open>Three stages: no prim has an attribute; every attribute exists and has no value;
  the prim \<^verbatim>\<open>/ball\<close> has a pivot of (1.0f, 2.0f, 0.0f) and nothing else.\<close>

definition stage_without_attributes :: UsdStage where
  "stage_without_attributes = (\<lambda>prim tok. None)"

definition stage_with_valueless_attributes :: UsdStage where
  "stage_with_valueless_attributes = (\<lambda>prim tok. Some (\<lambda>time. None))"

definition stage_with_pivot :: UsdStage where
  "stage_with_pivot =
     (\<lambda>prim tok.
        if prim = ''/ball'' \<and> tok = ''xformOp:translate:pivot''
        then Some (\<lambda>time. Some (GfVec3f 0x3F800000 0x40000000 0))
        else None)"

section \<open>Shared facts\<close>

lemma double_0_neq_1: "double_0 \<noteq> double_1"
  by (simp add: double_0_def double_1_def)

lemma path_item: "fItem t = Some item \<Longrightarrow> path t = Inr (UsdSceneItem_path item)"
  by (simp add: path_def)

lemma path_null: "fItem t = None \<Longrightarrow> path t = Inl NullPointerDereference"
  by (simp add: path_def)

lemma fItem_create_item: "fItem (create_item item) = item"
  by (simp add: create_item_def)

lemma fItem_setItem: "fItem (setItem t item) = item"
  by (simp add: setItem_def)

lemma version_example_env: "UFE_PREVIEW_VERSION_NUM (example_env version) = version"
  by (simp add: example_env_def)

section \<open>The matrix operations\<close>

text \<open>
  C1. The matrix operations are placeholders. With \<^verbatim>\<open>UFE_PREVIEW_VERSION_NUM = 2021\<close>, for
  a transform that holds a scene item, \<^verbatim>\<open>setMatrixCmd\<close> of the identity matrix returns the null
  pointer, not a command, and \<^verbatim>\<open>getMatrix\<close> returns the matrix that was never assigned,
  whatever the stage holds for the item.
\<close>

theorem C1_matrix_operations_are_placeholders:
  "setMatrixCmd (example_env 2021) (create_item (Some example_item)) example_identity = Inr None
   \<and> getMatrix (example_env 2021) stage_without_attributes (create_item (Some example_item))
       = Inr (unassigned_Matrix4d (example_env 2021))
   \<and> getMatrix (example_env 2021) stage_with_pivot (create_item (Some example_item))
       = Inr (unassigned_Matrix4d (example_env 2021))"
  by (simp add: setMatrixCmd_def getMatrix_def version_example_env)

section \<open>The command factories\<close>

text \<open>
  \<^verbatim>\<open>scalePivotTranslateCmd\<close> on a transform that holds a scene item: the
  \<^verbatim>\<open>std::runtime_error\<close> of the source, no command.
\<close>

theorem C2_scalePivotTranslateCmd_throws:
  "scalePivotTranslateCmd (create_item (Some example_item))
     = Inl (runtime_error ''UsdTransform3d::scalePivotTranslateCmd() not implemented'')"
  by (simp add: scalePivotTranslateCmd_def)

text \<open>
  C2, amended. For a transform that holds a scene item, \<^verbatim>\<open>translateCmd\<close>, \<^verbatim>\<open>rotateCmd\<close> and
  \<^verbatim>\<open>scaleCmd\<close> (called in the shape that was compiled: with \<^verbatim>\<open>(x, y, z)\<close> from version 2013
  on, without arguments before) and \<^verbatim>\<open>rotatePivotTranslateCmd\<close> return a command and raise
  nothing; \<^verbatim>\<open>scalePivotTranslateCmd\<close> is not implemented and throws \<^verbatim>\<open>std::runtime_error\<close>.
\<close>

theorem C2_command_factories:
  assumes "fItem t = Some item"
  shows "(\<exists>c. translateCmd e t (if 2013 \<le> UFE_PREVIEW_VERSION_NUM e then [x, y, z] else [])
               = Inr (Some c))
    \<and> (\<exists>c. rotateCmd e t (if 2013 \<le> UFE_PREVIEW_VERSION_NUM e then [x, y, z] else [])
               = Inr (Some c))
    \<and> (\<exists>c. scaleCmd e t (if 2013 \<le> UFE_PREVIEW_VERSION_NUM e then [x, y, z] else [])
               = Inr (Some c))
    \<and> (\<exists>c. rotatePivotTranslateCmd t = Inr (Some c))
    \<and> scalePivotTranslateCmd t
        = Inl (runtime_error ''UsdTransform3d::scalePivotTranslateCmd() not implemented'')"
proof -
  have p: "path t = Inr (UsdSceneItem_path item)"
    using assms by (rule path_item)
  have "\<exists>c. translateCmd e t (if 2013 \<le> UFE_PREVIEW_VERSION_NUM e then [x, y, z] else [])
              = Inr (Some c)"
    by (simp add: translateCmd_def translateCmd_xyz_def translateCmd_void_def p)
  moreover
  have "\<exists>c. rotateCmd e t (if 2013 \<le> UFE_PREVIEW_VERSION_NUM e then [x, y, z] else [])
              = Inr (Some c)"
    by (simp add: rotateCmd_def rotateCmd_xyz_def rotateCmd_void_def p)
  moreover
  have "\<exists>c. scaleCmd e t (if 2013 \<le> UFE_PREVIEW_VERSION_NUM e then [x, y, z] else [])
              = Inr (Some c)"
    by (simp add: scaleCmd_def scaleCmd_xyz_def scaleCmd_void_def p)
  moreover
  have "\<exists>c. rotatePivotTranslateCmd t = Inr (Some c)"
    using assms by (simp add: rotatePivotTranslateCmd_def)
  moreover
  have "scalePivotTranslateCmd t
          = Inl (runtime_error ''UsdTransform3d::scalePivotTranslateCmd() not implemented'')"
    by (simp add: scalePivotTranslateCmd_def)
  ultimately show ?thesis
    by blast
qed

theorem C2_command_factories_witness:
  "fItem (create_item (Some example_item)) = Some example_item
   \<and> (\<exists>c. translateCmd (example_env 2013) (create_item (Some example_item))
              [0x4000000000000000, 0x4008000000000000, 0x4014000000000000] = Inr (Some c))
   \<and> (\<exists>c. rotateCmd (example_env 2013) (create_item (Some example_item))
              [0x4000000000000000, 0x4008000000000000, 0x4014000000000000] = Inr (Some c))
   \<and> (\<exists>c. scaleCmd (example_env 2012) (create_item (Some example_item)) [] = Inr (Some c))
   \<and> (\<exists>c. rotatePivotTranslateCmd (create_item (Some example_item)) = Inr (Some c))
   \<and> scalePivotTranslateCmd (create_item (Some example_item))
        = Inl (runtime_error ''UsdTransform3d::scalePivotTranslateCmd() not implemented'')"
proof -
  have item: "fItem (create_item (Some example_item)) = Some example_item"
    by (rule fItem_create_item)
  note new = C2_command_factories [OF item, of "example_env 2013"
      "0x4000000000000000" "0x4008000000000000" "0x4014000000000000"]
  note old = C2_command_factories [OF item, of "example_env 2012"
      "0x4000000000000000" "0x4008000000000000" "0x4014000000000000"]
  from new old show ?thesis
    by (simp add: item version_example_env)
qed

text \<open>
  C6. The shape of the factories follows \<^verbatim>\<open>UFE_PREVIEW_VERSION_NUM\<close>. Below 2013 the
  factories without parameters are the ones compiled, and they create the command of the
  neutral value: \<^verbatim>\<open>translateCmd()\<close> and \<^verbatim>\<open>rotateCmd()\<close> with \<^verbatim>\<open>(0, 0, 0)\<close>, \<^verbatim>\<open>scaleCmd()\<close> with
  \<^verbatim>\<open>(1, 1, 1)\<close>; the three-argument ones do not exist. From 2013 on the factories take
  \<^verbatim>\<open>(x, y, z)\<close> and create the command of these three values; the ones without parameters
  do not exist.
\<close>

theorem C6_factories_follow_version:
  assumes "fItem t = Some item"
  shows
   "(UFE_PREVIEW_VERSION_NUM e < 2013 \<longrightarrow>
       translateCmd e t [] = Inr (Some (UsdTranslateUndoableCommand_create
                                   (UsdSceneItem_path item) double_0 double_0 double_0))
     \<and> rotateCmd e t [] = Inr (Some (UsdRotateUndoableCommand_create
                                   (UsdSceneItem_path item) double_0 double_0 double_0))
     \<and> scaleCmd e t [] = Inr (Some (UsdScaleUndoableCommand_create
                                   (UsdSceneItem_path item) double_1 double_1 double_1))
     \<and> translateCmd e t [x, y, z] = Inl NotDeclared
     \<and> rotateCmd e t [x, y, z] = Inl NotDeclared
     \<and> scaleCmd e t [x, y, z] = Inl NotDeclared)
    \<and> (2013 \<le> UFE_PREVIEW_VERSION_NUM e \<longrightarrow>
       translateCmd e t [x, y, z] = Inr (Some (UsdTranslateUndoableCommand_create
                                   (UsdSceneItem_path item) x y z))
     \<and> rotateCmd e t [x, y, z] = Inr (Some (UsdRotateUndoableCommand_create
                                   (UsdSceneItem_path item) x y z))
     \<and> scaleCmd e t [x, y, z] = Inr (Some (UsdScaleUndoableCommand_create
                                   (UsdSceneItem_path item) x y z))
     \<and> translateCmd e t [] = Inl NotDeclared
     \<and> rotateCmd e t [] = Inl NotDeclared
     \<and> scaleCmd e t [] = Inl NotDeclared)"
proof -
  have p: "path t = Inr (UsdSceneItem_path item)"
    using assms by (rule path_item)
  show ?thesis
    by (simp add: translateCmd_def translateCmd_xyz_def translateCmd_void_def
        rotateCmd_def rotateCmd_xyz_def rotateCmd_void_def
        scaleCmd_def scaleCmd_xyz_def scaleCmd_void_def p)
qed

theorem C6_factories_follow_version_witness:
  "fItem (create_item (Some example_item)) = Some example_item
   \<and> UFE_PREVIEW_VERSION_NUM (example_env 2012) < 2013
   \<and> translateCmd (example_env 2012) (create_item (Some example_item)) []
       = Inr (Some (UsdTranslateUndoableCommand_create
                      (UsdSceneItem_path example_item) double_0 double_0 double_0))
   \<and> rotateCmd (example_env 2012) (create_item (Some example_item)) []
       = Inr (Some (UsdRotateUndoableCommand_create
                      (UsdSceneItem_path example_item) double_0 double_0 double_0))
   \<and> scaleCmd (example_env 2012) (create_item (Some example_item)) []
       = Inr (Some (UsdScaleUndoableCommand_create
                      (UsdSceneItem_path example_item) double_1 double_1 double_1))
   \<and> translateCmd (example_env 2012) (create_item (Some example_item))
        [0x4000000000000000, 0x4008000000000000, 0x4014000000000000] = Inl NotDeclared
   \<and> 2013 \<le> UFE_PREVIEW_VERSION_NUM (example_env 2013)
   \<and> translateCmd (example_env 2013) (create_item (Some example_item))
        [0x4000000000000000, 0x4008000000000000, 0x4014000000000000]
       = Inr (Some (UsdTranslateUndoableCommand_create (UsdSceneItem_path example_item)
                      0x4000000000000000 0x4008000000000000 0x4014000000000000))
   \<and> rotateCmd (example_env 2013) (create_item (Some example_item))
        [0x4000000000000000, 0x4008000000000000, 0x4014000000000000]
       = Inr (Some (UsdRotateUndoableCommand_create (UsdSceneItem_path example_item)
                      0x4000000000000000 0x4008000000000000 0x4014000000000000))
   \<and> scaleCmd (example_env 2013) (create_item (Some example_item))
        [0x4000000000000000, 0x4008000000000000, 0x4014000000000000]
       = Inr (Some (UsdScaleUndoableCommand_create (UsdSceneItem_path example_item)
                      0x4000000000000000 0x4008000000000000 0x4014000000000000))
   \<and> scaleCmd (example_env 2013) (create_item (Some example_item)) [] = Inl NotDeclared"
proof -
  have item: "fItem (create_item (Some example_item)) = Some example_item"
    by (rule fItem_create_item)
  note old = C6_factories_follow_version [OF item, of "example_env 2012"
      "0x4000000000000000" "0x4008000000000000" "0x4014000000000000"]
  note new = C6_factories_follow_version [OF item, of "example_env 2013"
      "0x4000000000000000" "0x4008000000000000" "0x4014000000000000"]
  from old new show ?thesis
    by (simp add: item version_example_env)
qed

section \<open>The vector observers\<close>

text \<open>
  C3. For a transform that holds a scene item: when the prim has no attribute
  \<^verbatim>\<open>xformOp:scale\<close>, or the attribute has no value at the time of the item's path,
  \<^verbatim>\<open>scale()\<close> returns \<^verbatim>\<open>(0, 0, 0)\<close>, which is not the neutral scale \<^verbatim>\<open>(1, 1, 1)\<close>. In the same
  way \<^verbatim>\<open>rotation()\<close> returns \<^verbatim>\<open>(0, 0, 0)\<close> for \<^verbatim>\<open>xformOp:rotateXYZ\<close>, \<^verbatim>\<open>translation()\<close> for
  \<^verbatim>\<open>xformOp:translate\<close> and \<^verbatim>\<open>rotatePivot()\<close> for \<^verbatim>\<open>xformOp:translate:pivot\<close>. (\<^verbatim>\<open>scale()\<close> and
  \<^verbatim>\<open>rotation()\<close> exist from \<^verbatim>\<open>UFE_PREVIEW_VERSION_NUM\<close> 2013 on.)
\<close>

theorem C3_zero_when_absent_or_valueless:
  assumes "fItem t = Some item"
  shows
   "((\<not> HasAttribute s (UsdSceneItem_prim item) ''xformOp:scale''
       \<or> GetAttribute s (UsdSceneItem_prim item) ''xformOp:scale''
            (getTime e (UsdSceneItem_path item)) = None)
      \<and> 2013 \<le> UFE_PREVIEW_VERSION_NUM e
      \<longrightarrow> scale e s t = Inr (Vector3d double_0 double_0 double_0)
          \<and> scale e s t \<noteq> Inr (Vector3d double_1 double_1 double_1))
    \<and> ((\<not> HasAttribute s (UsdSceneItem_prim item) ''xformOp:rotateXYZ''
       \<or> GetAttribute s (UsdSceneItem_prim item) ''xformOp:rotateXYZ''
            (getTime e (UsdSceneItem_path item)) = None)
      \<and> 2013 \<le> UFE_PREVIEW_VERSION_NUM e
      \<longrightarrow> rotation e s t = Inr (Vector3d double_0 double_0 double_0))
    \<and> ((\<not> HasAttribute s (UsdSceneItem_prim item) ''xformOp:translate''
       \<or> GetAttribute s (UsdSceneItem_prim item) ''xformOp:translate''
            (getTime e (UsdSceneItem_path item)) = None)
      \<longrightarrow> translation e s t = Inr (Vector3d double_0 double_0 double_0))
    \<and> ((\<not> HasAttribute s (UsdSceneItem_prim item) ''xformOp:translate:pivot''
       \<or> GetAttribute s (UsdSceneItem_prim item) ''xformOp:translate:pivot''
            (getTime e (UsdSceneItem_path item)) = None)
      \<longrightarrow> rotatePivot e s t = Inr (Vector3d double_0 double_0 double_0))"
proof -
  have p: "path t = Inr (UsdSceneItem_path item)"
    using assms by (rule path_item)
  have sc: "scale e s t = Inr (Vector3d double_0 double_0 double_0)"
    if "\<not> HasAttribute s (UsdSceneItem_prim item) ''xformOp:scale''
       \<or> GetAttribute s (UsdSceneItem_prim item) ''xformOp:scale''
            (getTime e (UsdSceneItem_path item)) = None"
      and "2013 \<le> UFE_PREVIEW_VERSION_NUM e"
    using that assms by (auto simp: scale_def Let_def p Get_GfVec3f_def)
  have ro: "rotation e s t = Inr (Vector3d double_0 double_0 double_0)"
    if "\<not> HasAttribute s (UsdSceneItem_prim item) ''xformOp:rotateXYZ''
       \<or> GetAttribute s (UsdSceneItem_prim item) ''xformOp:rotateXYZ''
            (getTime e (UsdSceneItem_path item)) = None"
      and "2013 \<le> UFE_PREVIEW_VERSION_NUM e"
    using that assms by (auto simp: rotation_def Let_def p Get_GfVec3f_def)
  have tr: "translation e s t = Inr (Vector3d double_0 double_0 double_0)"
    if "\<not> HasAttribute s (UsdSceneItem_prim item) ''xformOp:translate''
       \<or> GetAttribute s (UsdSceneItem_prim item) ''xformOp:translate''
            (getTime e (UsdSceneItem_path item)) = None"
    using that assms by (auto simp: translation_def Let_def p Get_GfVec3d_def)
  have pv: "rotatePivot e s t = Inr (Vector3d double_0 double_0 double_0)"
    if "\<not> HasAttribute s (UsdSceneItem_prim item) ''xformOp:translate:pivot''
       \<or> GetAttribute s (UsdSceneItem_prim item) ''xformOp:translate:pivot''
            (getTime e (UsdSceneItem_path item)) = None"
    using that assms by (auto simp: rotatePivot_def Let_def p Get_GfVec3f_def)
  from sc ro tr pv double_0_neq_1 show ?thesis
    by simp
qed

theorem C3_zero_when_absent_or_valueless_witness:
  "fItem (create_item (Some example_item)) = Some example_item
   \<and> 2013 \<le> UFE_PREVIEW_VERSION_NUM (example_env 2013)
   \<and> \<not> HasAttribute stage_without_attributes (UsdSceneItem_prim example_item) ''xformOp:scale''
   \<and> scale (example_env 2013) stage_without_attributes (create_item (Some example_item))
       = Inr (Vector3d double_0 double_0 double_0)
   \<and> rotation (example_env 2013) stage_without_attributes (create_item (Some example_item))
       = Inr (Vector3d double_0 double_0 double_0)
   \<and> translation (example_env 2013) stage_without_attributes (create_item (Some example_item))
       = Inr (Vector3d double_0 double_0 double_0)
   \<and> rotatePivot (example_env 2013) stage_without_attributes (create_item (Some example_item))
       = Inr (Vector3d double_0 double_0 double_0)
   \<and> HasAttribute stage_with_valueless_attributes (UsdSceneItem_prim example_item)
        ''xformOp:scale''
   \<and> GetAttribute stage_with_valueless_attributes (UsdSceneItem_prim example_item)
        ''xformOp:scale'' (getTime (example_env 2013) (UsdSceneItem_path example_item)) = None
   \<and> scale (example_env 2013) stage_with_valueless_attributes (create_item (Some example_item))
       = Inr (Vector3d double_0 double_0 double_0)
   \<and> rotation (example_env 2013) stage_with_valueless_attributes
        (create_item (Some example_item))
       = Inr (Vector3d double_0 double_0 double_0)
   \<and> translation (example_env 2013) stage_with_valueless_attributes
        (create_item (Some example_item))
       = Inr (Vector3d double_0 double_0 double_0)
   \<and> rotatePivot (example_env 2013) stage_with_valueless_attributes
        (create_item (Some example_item))
       = Inr (Vector3d double_0 double_0 double_0)"
proof -
  have item: "fItem (create_item (Some example_item)) = Some example_item"
    by (rule fItem_create_item)
  have absent: "\<not> HasAttribute stage_without_attributes prim tok" for prim tok
    by (simp add: HasAttribute_def stage_without_attributes_def)
  have present: "HasAttribute stage_with_valueless_attributes prim tok" for prim tok
    by (simp add: HasAttribute_def stage_with_valueless_attributes_def)
  have valueless: "GetAttribute stage_with_valueless_attributes prim tok time = None"
    for prim tok time
    by (simp add: GetAttribute_def stage_with_valueless_attributes_def)
  note a = C3_zero_when_absent_or_valueless
    [OF item, of stage_without_attributes "example_env 2013"]
  note b = C3_zero_when_absent_or_valueless
    [OF item, of stage_with_valueless_attributes "example_env 2013"]
  from a b show ?thesis
    by (simp add: item version_example_env absent present valueless)
qed

section \<open>Writing and reading the translation\<close>

text \<open>
  C4. For a transform that holds a scene item and all doubles \<^verbatim>\<open>x\<close>, \<^verbatim>\<open>y\<close>, \<^verbatim>\<open>z\<close>:
  \<^verbatim>\<open>translate(x, y, z)\<close> succeeds and authors the attribute \<^verbatim>\<open>xformOp:translate\<close> of the prim,
  and \<^verbatim>\<open>translation()\<close> on the stage it leaves returns exactly \<^verbatim>\<open>(x, y, z)\<close>. The writer
  \<^verbatim>\<open>translateOp\<close> is the model given above; the reader is the source's.
\<close>

theorem C4_translate_then_translation:
  assumes "fItem t = Some item"
  shows "\<exists>s'. translate e s t x y z = Inr s'
           \<and> HasAttribute s' (UsdSceneItem_prim item) ''xformOp:translate''
           \<and> translation e s' t = Inr (Vector3d x y z)"
  using assms
  by (simp add: translate_def translation_def translateOp_def HasAttribute_def
      GetAttribute_def Get_GfVec3d_def path_def Let_def)

theorem C4_translate_then_translation_witness:
  "fItem (create_item (Some example_item)) = Some example_item
   \<and> (\<exists>s'. translate (example_env 2013) stage_with_valueless_attributes
              (create_item (Some example_item))
              0x4000000000000000 0x4008000000000000 0x4014000000000000 = Inr s'
           \<and> HasAttribute s' (UsdSceneItem_prim example_item) ''xformOp:translate''
           \<and> translation (example_env 2013) s' (create_item (Some example_item))
               = Inr (Vector3d 0x4000000000000000 0x4008000000000000 0x4014000000000000))"
proof -
  have item: "fItem (create_item (Some example_item)) = Some example_item"
    by (rule fItem_create_item)
  from C4_translate_then_translation [OF item, of "example_env 2013"
      stage_with_valueless_attributes
      "0x4000000000000000" "0x4008000000000000" "0x4014000000000000"]
  show ?thesis
    by (simp add: item)
qed

section \<open>The segment matrices\<close>

text \<open>
  \<^verbatim>\<open>convertFromUsd\<close> copies the sixteen entries. For a transform that holds a scene item the
  two segment matrices are what the transform cache, built for the time of the item's path,
  answers for the item's prim: the local-to-world transform for the inclusive matrix, the
  parent-to-world transform for the exclusive one. So the two matrices are equal exactly
  when the cache gives the same answer to both queries. What the cache answers for a given
  prim is the library's business and not part of this file.
\<close>

lemma convertFromUsd_rows:
  "convertFromUsd (GfMatrix4d r0 r1 r2 r3) = Matrix4d r0 r1 r2 r3"
  by (cases r0, cases r1, cases r2, cases r3) (simp add: convertFromUsd_def)

lemma convertFromUsd_inject:
  "convertFromUsd a = convertFromUsd b \<longleftrightarrow> a = b"
  by (cases a, cases b) (simp add: convertFromUsd_rows)

lemma segmentInclusiveMatrix_item:
  "fItem t = Some item \<Longrightarrow>
   segmentInclusiveMatrix e s t
     = Inr (convertFromUsd (GetLocalToWorldTransform e (getTime e (UsdSceneItem_path item)) s
              (UsdSceneItem_prim item)))"
  by (simp add: segmentInclusiveMatrix_def primToUfeXform_def path_def)

lemma segmentExclusiveMatrix_item:
  "fItem t = Some item \<Longrightarrow>
   segmentExclusiveMatrix e s t
     = Inr (convertFromUsd (GetParentToWorldTransform e (getTime e (UsdSceneItem_path item)) s
              (UsdSceneItem_prim item)))"
  by (simp add: segmentExclusiveMatrix_def primToUfeExclusiveXform_def path_def)

lemma segment_matrices_equal_iff:
  "fItem t = Some item \<Longrightarrow>
   segmentInclusiveMatrix e s t = segmentExclusiveMatrix e s t
     \<longleftrightarrow> GetLocalToWorldTransform e (getTime e (UsdSceneItem_path item)) s
            (UsdSceneItem_prim item)
         = GetParentToWorldTransform e (getTime e (UsdSceneItem_path item)) s
            (UsdSceneItem_prim item)"
  by (simp add: segmentInclusiveMatrix_item segmentExclusiveMatrix_item convertFromUsd_inject)

section \<open>The scale pivot\<close>

text \<open>
  C7. The scale pivot is the rotate pivot under another name. For a transform that holds a
  scene item, \<^verbatim>\<open>scalePivot()\<close> and \<^verbatim>\<open>rotatePivot()\<close> return the same vector, and
  \<^verbatim>\<open>scalePivotTranslate(x, y, z)\<close> and \<^verbatim>\<open>rotatePivotTranslate(x, y, z)\<close> leave the same stage.
\<close>

theorem C7_scale_pivot_is_rotate_pivot:
  assumes "fItem t = Some item"
  shows "\<exists>v s'. rotatePivot e s t = Inr v \<and> scalePivot e s t = Inr v
           \<and> rotatePivotTranslate e s t x y z = Inr s'
           \<and> scalePivotTranslate e s t x y z = Inr s'"
proof -
  have p: "path t = Inr (UsdSceneItem_path item)"
    using assms by (rule path_item)
  have "\<exists>v. rotatePivot e s t = Inr v"
    using assms by (simp add: rotatePivot_def Let_def p split: option.split)
  moreover have "\<exists>s'. rotatePivotTranslate e s t x y z = Inr s'"
    using assms by (simp add: rotatePivotTranslate_def p)
  ultimately show ?thesis
    by (auto simp: scalePivot_def scalePivotTranslate_def)
qed

theorem C7_scale_pivot_is_rotate_pivot_witness:
  "fItem (create_item (Some example_item)) = Some example_item
   \<and> rotatePivot (example_env 2013) stage_with_pivot (create_item (Some example_item))
       = Inr (Vector3d double_1 0x4000000000000000 double_0)
   \<and> scalePivot (example_env 2013) stage_with_pivot (create_item (Some example_item))
       = Inr (Vector3d double_1 0x4000000000000000 double_0)
   \<and> rotatePivotTranslate (example_env 2013) stage_with_pivot (create_item (Some example_item))
        double_1 double_0 double_0 = Inr stage_with_pivot
   \<and> scalePivotTranslate (example_env 2013) stage_with_pivot (create_item (Some example_item))
        double_1 double_0 double_0 = Inr stage_with_pivot"
proof -
  have item: "fItem (create_item (Some example_item)) = Some example_item"
    by (rule fItem_create_item)
  have rp: "rotatePivot (example_env 2013) stage_with_pivot (create_item (Some example_item))
       = Inr (Vector3d double_1 0x4000000000000000 double_0)"
    by (simp add: rotatePivot_def Let_def create_item_def path_def HasAttribute_def
        GetAttribute_def Get_GfVec3f_def stage_with_pivot_def example_item_def example_env_def)
  have rt: "rotatePivotTranslate (example_env 2013) stage_with_pivot
        (create_item (Some example_item)) double_1 double_0 double_0 = Inr stage_with_pivot"
    by (simp add: rotatePivotTranslate_def create_item_def path_def example_env_def)
  from C7_scale_pivot_is_rotate_pivot [OF item, of "example_env 2013" stage_with_pivot
      double_1 double_0 double_0] rp rt
  show ?thesis
    by (auto simp: item)
qed

section \<open>The null item\<close>

text \<open>
  \<^verbatim>\<open>sceneItem()\<close> on a default-constructed transform returns the null pointer it holds; it
  dereferences nothing.
\<close>

theorem C8_sceneItem_does_not_dereference:
  "sceneItem create = Inr None \<and> sceneItem create \<noteq> Inl NullPointerDereference"
  by (simp add: sceneItem_def create_def)

text \<open>
  C8, amended. The members that dereference the held item (\<^verbatim>\<open>path\<close>, \<^verbatim>\<open>translate\<close>,
  \<^verbatim>\<open>translation\<close>, \<^verbatim>\<open>rotate\<close>, \<^verbatim>\<open>rotation\<close>, both \<^verbatim>\<open>scale\<close>, the pivot accessors and the two
  segment matrices) need \<^verbatim>\<open>fItem\<close> to be non-null: on the transform that the parameterless
  \<^verbatim>\<open>create()\<close> makes each of them dereferences a null pointer (the observers \<^verbatim>\<open>rotation()\<close> and
  \<^verbatim>\<open>scale()\<close> where they are compiled), and on a transform made with an item or given one by
  \<^verbatim>\<open>setItem\<close> none of them does. \<^verbatim>\<open>sceneItem()\<close> has no such precondition: it returns the
  pointer, null or not.
\<close>

theorem C8_null_item_precondition:
  "path create = Inl NullPointerDereference
   \<and> translate e s create x y z = Inl NullPointerDereference
   \<and> translation e s create = Inl NullPointerDereference
   \<and> rotate_xyz e s create x y z = Inl NullPointerDereference
   \<and> scale_xyz e s create x y z = Inl NullPointerDereference
   \<and> rotation e s create
       = (if 2013 \<le> UFE_PREVIEW_VERSION_NUM e then Inl NullPointerDereference
          else Inl NotDeclared)
   \<and> scale e s create
       = (if 2013 \<le> UFE_PREVIEW_VERSION_NUM e then Inl NullPointerDereference
          else Inl NotDeclared)
   \<and> rotatePivotTranslate e s create x y z = Inl NullPointerDereference
   \<and> rotatePivot e s create = Inl NullPointerDereference
   \<and> scalePivotTranslate e s create x y z = Inl NullPointerDereference
   \<and> scalePivot e s create = Inl NullPointerDereference
   \<and> segmentInclusiveMatrix e s create = Inl NullPointerDereference
   \<and> segmentExclusiveMatrix e s create = Inl NullPointerDereference
   \<and> sceneItem create = Inr None
   \<and> path (create_item (Some item)) = Inr (UsdSceneItem_path item)
   \<and> path (setItem t (Some item)) = Inr (UsdSceneItem_path item)
   \<and> sceneItem (setItem t (Some item)) = Inr (Some item)
   \<and> (\<exists>s'. translate e s (setItem t (Some item)) x y z = Inr s')
   \<and> (\<exists>v. translation e s (setItem t (Some item)) = Inr v)
   \<and> (\<exists>s'. rotate_xyz e s (setItem t (Some item)) x y z = Inr s')
   \<and> (\<exists>s'. scale_xyz e s (setItem t (Some item)) x y z = Inr s')
   \<and> rotation e s (setItem t (Some item)) \<noteq> Inl NullPointerDereference
   \<and> scale e s (setItem t (Some item)) \<noteq> Inl NullPointerDereference
   \<and> (\<exists>s'. rotatePivotTranslate e s (setItem t (Some item)) x y z = Inr s')
   \<and> (\<exists>v. rotatePivot e s (setItem t (Some item)) = Inr v)
   \<and> (\<exists>s'. scalePivotTranslate e s (setItem t (Some item)) x y z = Inr s')
   \<and> (\<exists>v. scalePivot e s (setItem t (Some item)) = Inr v)
   \<and> (\<exists>m. segmentInclusiveMatrix e s (setItem t (Some item)) = Inr m)
   \<and> (\<exists>m. segmentExclusiveMatrix e s (setItem t (Some item)) = Inr m)"
proof -
  have null: "fItem create = None"
    by (simp add: create_def)
  have pn: "path create = Inl NullPointerDereference"
    using null by (rule path_null)
  have item: "fItem (setItem t (Some item)) = Some item"
    by (rule fItem_setItem)
  have pi: "path (setItem t (Some item)) = Inr (UsdSceneItem_path item)"
    using item by (rule path_item)
  have n1: "translate e s create x y z = Inl NullPointerDereference"
    by (simp add: translate_def null)
  have n2: "translation e s create = Inl NullPointerDereference"
    by (simp add: translation_def null)
  have n3: "rotate_xyz e s create x y z = Inl NullPointerDereference"
    by (simp add: rotate_xyz_def null)
  have n4: "scale_xyz e s create x y z = Inl NullPointerDereference"
    by (simp add: scale_xyz_def null)
  have n5: "rotation e s create
       = (if 2013 \<le> UFE_PREVIEW_VERSION_NUM e then Inl NullPointerDereference
          else Inl NotDeclared)"
    by (simp add: rotation_def null)
  have n6: "scale e s create
       = (if 2013 \<le> UFE_PREVIEW_VERSION_NUM e then Inl NullPointerDereference
          else Inl NotDeclared)"
    by (simp add: scale_def null)
  have n7: "rotatePivotTranslate e s create x y z = Inl NullPointerDereference"
    by (simp add: rotatePivotTranslate_def null)
  have n8: "rotatePivot e s create = Inl NullPointerDereference"
    by (simp add: rotatePivot_def null)
  have n9: "segmentInclusiveMatrix e s create = Inl NullPointerDereference"
    by (simp add: segmentInclusiveMatrix_def null)
  have n10: "segmentExclusiveMatrix e s create = Inl NullPointerDereference"
    by (simp add: segmentExclusiveMatrix_def null)
  have n11: "sceneItem create = Inr None"
    by (simp add: sceneItem_def null)
  have i0: "path (create_item (Some item)) = Inr (UsdSceneItem_path item)"
    by (simp add: path_item fItem_create_item)
  have i1: "\<exists>s'. translate e s (setItem t (Some item)) x y z = Inr s'"
    by (simp add: translate_def item)
  have i2: "\<exists>v. translation e s (setItem t (Some item)) = Inr v"
    by (simp add: translation_def Let_def item pi split: option.split)
  have i3: "\<exists>s'. rotate_xyz e s (setItem t (Some item)) x y z = Inr s'"
    by (simp add: rotate_xyz_def item)
  have i4: "\<exists>s'. scale_xyz e s (setItem t (Some item)) x y z = Inr s'"
    by (simp add: scale_xyz_def item)
  have i5: "rotation e s (setItem t (Some item)) \<noteq> Inl NullPointerDereference"
    by (simp add: rotation_def Let_def item pi split: option.split)
  have i6: "scale e s (setItem t (Some item)) \<noteq> Inl NullPointerDereference"
    by (simp add: scale_def Let_def item pi split: option.split)
  have i7: "\<exists>s'. rotatePivotTranslate e s (setItem t (Some item)) x y z = Inr s'"
    by (simp add: rotatePivotTranslate_def item pi)
  have i8: "\<exists>v. rotatePivot e s (setItem t (Some item)) = Inr v"
    by (simp add: rotatePivot_def Let_def item pi split: option.split)
  have i9: "\<exists>m. segmentInclusiveMatrix e s (setItem t (Some item)) = Inr m"
    by (simp add: segmentInclusiveMatrix_def item pi)
  have i10: "\<exists>m. segmentExclusiveMatrix e s (setItem t (Some item)) = Inr m"
    by (simp add: segmentExclusiveMatrix_def item pi)
  have i11: "sceneItem (setItem t (Some item)) = Inr (Some item)"
    by (simp add: sceneItem_def item)
  show ?thesis
    unfolding scalePivot_def scalePivotTranslate_def
    using pn n1 n2 n3 n4 n5 n6 n7 n8 n9 n10 n11 i0 pi i1 i2 i3 i4 i5 i6 i7 i8 i9 i10 i11
    by (intro conjI) assumption+
qed

end
